theory Spec2Isabelle
  imports Complex_Main "HOL-Library.AList"
begin

section \<open>JavaScript values as the middleware sees them\<close>

text \<open>
  The middleware of \<^verbatim>\<open>graphql-middleware.ts\<close> works on values that come out of
  \<^verbatim>\<open>JSON.parse\<close>, out of the request (\<^verbatim>\<open>req.body\<close>, \<^verbatim>\<open>req.query\<close>) and out of the
  key-value store. They are JSON values; \<^verbatim>\<open>undefined\<close>, which only arises from reading
  a property that is not there, is \<open>None\<close> of \<open>json option\<close>.

  Limits of the model:
  \<^item> a Number is an integer. \<^verbatim>\<open>JSON.parse\<close> answers \<open>Unsupported\<close> for a number literal
    with a fraction or an exponent, and for one outside the safe range
    (\<open>|n| < 2^53\<close>) in which IEEE doubles hold every integer. The product
    \<^verbatim>\<open>minAge * 1000\<close> is \<open>Unsupported\<close> outside that range; the quotients and the
    difference under \<^verbatim>\<open>Math.round\<close> are rounded as doubles are (\<open>fl\<close> below);
  \<^item> a string is a list of code units below 256 (Isabelle's \<open>char\<close>); an escape
    \<^verbatim>\<open>\uXXXX\<close> above that is \<open>Unsupported\<close>;
  \<^item> the coercion of strings, arrays and objects to numbers is \<open>Unsupported\<close>.
\<close>

datatype error = SyntaxError | TypeError | Unsupported

datatype json =
    JNull
  | JBool bool
  | JNum int
  | JStr string
  | JArr "json list"
  | JObj "(string \<times> json) list"

text \<open>A thrown exception (a rejected promise of an \<^verbatim>\<open>async\<close> function) is \<open>Inl\<close>.\<close>

definition ebind :: "error + 'a \<Rightarrow> ('a \<Rightarrow> error + 'b) \<Rightarrow> error + 'b" where
  "ebind m f = (case m of Inl e \<Rightarrow> Inl e | Inr x \<Rightarrow> f x)"

text \<open>ToBoolean.\<close>

fun truthy :: "json option \<Rightarrow> bool" where
  "truthy None = False"
| "truthy (Some JNull) = False"
| "truthy (Some (JBool b)) = b"
| "truthy (Some (JNum n)) = (n \<noteq> 0)"
| "truthy (Some (JStr s)) = (s \<noteq> [])"
| "truthy (Some (JArr xs)) = True"
| "truthy (Some (JObj kvs)) = True"

text \<open>
  Reading a property \<^verbatim>\<open>v.k\<close>, for the keys this program reads (\<^verbatim>\<open>extensions\<close>,
  \<^verbatim>\<open>persistedQuery\<close>, \<^verbatim>\<open>version\<close>, \<^verbatim>\<open>sha256Hash\<close>, \<^verbatim>\<open>query\<close>, \<^verbatim>\<open>cacheControl\<close>,
  \<^verbatim>\<open>hints\<close>, \<^verbatim>\<open>maxAge\<close>, \<^verbatim>\<open>payload\<close>, \<^verbatim>\<open>at\<close>, \<^verbatim>\<open>duration\<close>). None of them is a
  property of \<^verbatim>\<open>Object.prototype\<close> or of a primitive, so that a value other than an
  object answers \<^verbatim>\<open>undefined\<close>. (Recent engines have a method \<^verbatim>\<open>at\<close> on arrays and
  strings. The program reads \<^verbatim>\<open>at\<close> only from a store entry, next to its \<^verbatim>\<open>payload\<close>;
  for an array or a string the \<^verbatim>\<open>payload\<close> is \<^verbatim>\<open>undefined\<close> and \<open>sendContent\<close> throws,
  in the engine as in the model.) Reading a property of \<^verbatim>\<open>undefined\<close> or \<^verbatim>\<open>null\<close>
  throws a TypeError.
\<close>

fun get_prop :: "json option \<Rightarrow> string \<Rightarrow> error + json option" where
  "get_prop None k = Inl TypeError"
| "get_prop (Some JNull) k = Inl TypeError"
| "get_prop (Some (JObj kvs)) k = Inr (map_of kvs k)"
| "get_prop (Some v) k = Inr None"

subsection \<open>Numbers as text\<close>

definition digit_chr :: "nat \<Rightarrow> char" where
  "digit_chr d = ''0123456789abcdef'' ! d"

definition hex_val :: "char \<Rightarrow> int option" where
  "hex_val c = map_of
     [(CHR ''0'', 0), (CHR ''1'', 1), (CHR ''2'', 2), (CHR ''3'', 3), (CHR ''4'', 4),
      (CHR ''5'', 5), (CHR ''6'', 6), (CHR ''7'', 7), (CHR ''8'', 8), (CHR ''9'', 9),
      (CHR ''a'', 10), (CHR ''b'', 11), (CHR ''c'', 12), (CHR ''d'', 13), (CHR ''e'', 14),
      (CHR ''f'', 15), (CHR ''A'', 10), (CHR ''B'', 11), (CHR ''C'', 12), (CHR ''D'', 13),
      (CHR ''E'', 14), (CHR ''F'', 15)] c"

definition is_digit :: "char \<Rightarrow> bool" where
  "is_digit c = (c \<in> set ''0123456789'')"

text \<open>The decimal digits of a number that is not negative.\<close>

function int_digits :: "int \<Rightarrow> string" where
  "int_digits n =
     (if n < 10 then [digit_chr (nat n)]
      else int_digits (n div 10) @ [digit_chr (nat (n mod 10))])"
  by pat_completeness auto
termination
  by (relation "measure nat") auto

declare int_digits.simps [simp del]

text \<open>Value of a run of decimal digits, most significant first.\<close>

definition digits_val :: "string \<Rightarrow> int" where
  "digits_val ds = foldl (\<lambda>a c. 10 * a + (case hex_val c of Some d \<Rightarrow> d | None \<Rightarrow> 0)) 0 ds"

text \<open>Number to String, for an integer Number.\<close>

definition show_int :: "int \<Rightarrow> string" where
  "show_int i = (if i < 0 then CHR ''-'' # int_digits (- i) else int_digits i)"

subsection \<open>ToString\<close>

fun intercalate :: "string \<Rightarrow> string list \<Rightarrow> string" where
  "intercalate sep [] = []"
| "intercalate sep [x] = x"
| "intercalate sep (x # y # ys) = x @ sep @ intercalate sep (y # ys)"

text \<open>
  ToString of a JSON value, as a template literal and \<^verbatim>\<open>JSON.parse\<close> apply it to
  their operand: an array is its elements joined by commas, \<^verbatim>\<open>null\<close> elements
  empty; a plain object is \<^verbatim>\<open>[object Object]\<close>.
\<close>

fun to_string :: "json \<Rightarrow> string" where
  "to_string JNull = ''null''"
| "to_string (JBool b) = (if b then ''true'' else ''false'')"
| "to_string (JNum n) = show_int n"
| "to_string (JStr s) = s"
| "to_string (JArr xs) =
     intercalate '','' (map (\<lambda>x. if x = JNull then [] else to_string x) xs)"
| "to_string (JObj kvs) = ''[object Object]''"

definition js_string :: "json option \<Rightarrow> string" where
  "js_string v = (case v of None \<Rightarrow> ''undefined'' | Some x \<Rightarrow> to_string x)"

section \<open>\<^verbatim>\<open>JSON.stringify\<close> and \<^verbatim>\<open>JSON.parse\<close>\<close>

text \<open>
  The two built-ins of ECMAScript, on the values above. \<^verbatim>\<open>JSON.stringify\<close> without
  an indent writes no white space; a string is quoted with the escapes of
  QuoteJSONString (the short escapes, and \<^verbatim>\<open>\u00xx\<close> in lower-case hexadecimal for the
  other control characters).
\<close>

definition quote_char :: "char \<Rightarrow> string" where
  \<open>quote_char c =
     (if c = CHR ''"'' then [CHR 0x5C, CHR ''"'']
      else if c = CHR 0x5C then [CHR 0x5C, CHR 0x5C]
      else if c = CHR 0x08 then [CHR 0x5C, CHR ''b'']
      else if c = CHR 0x0C then [CHR 0x5C, CHR ''f'']
      else if c = CHR 0x0A then [CHR 0x5C, CHR ''n'']
      else if c = CHR 0x0D then [CHR 0x5C, CHR ''r'']
      else if c = CHR 0x09 then [CHR 0x5C, CHR ''t'']
      else if (of_char c :: nat) < 32 then
        [CHR 0x5C, CHR ''u'', CHR ''0'', CHR ''0'',
         digit_chr (of_char c div 16), digit_chr (of_char c mod 16)]
      else [c])\<close>

definition quote :: "string \<Rightarrow> string" where
  \<open>quote s = CHR ''"'' # concat (map quote_char s) @ [CHR ''"'']\<close>

fun JSON_stringify :: "json \<Rightarrow> string" where
  "JSON_stringify JNull = ''null''"
| "JSON_stringify (JBool b) = (if b then ''true'' else ''false'')"
| "JSON_stringify (JNum n) = show_int n"
| "JSON_stringify (JStr s) = quote s"
| "JSON_stringify (JArr xs) = ''['' @ intercalate '','' (map JSON_stringify xs) @ '']''"
| "JSON_stringify (JObj kvs) =
     ''{'' @ intercalate '','' (map (\<lambda>(k, v). quote k @ '':'' @ JSON_stringify v) kvs) @ ''}''"

text \<open>
  The properties of an object are kept in the order in which JavaScript enumerates
  them: array indices (canonical numeric strings below \<open>2^32 - 1\<close>) first, in
  ascending order, then the other keys in the order of their creation. A key that
  occurs twice in a JSON text keeps its first place and takes the last value.
\<close>

definition is_index_key :: "string \<Rightarrow> bool" where
  "is_index_key k =
     (k \<noteq> [] \<and> list_all is_digit k \<and> (k = ''0'' \<or> hd k \<noteq> CHR ''0'') \<and> digits_val k < 4294967295)"

fun insert_index :: "string \<Rightarrow> json \<Rightarrow> (string \<times> json) list \<Rightarrow> (string \<times> json) list" where
  "insert_index k v [] = [(k, v)]"
| "insert_index k v ((k', v') # kvs) =
     (if is_index_key k' \<and> digits_val k' < digits_val k then (k', v') # insert_index k v kvs
      else (k, v) # (k', v') # kvs)"

definition obj_put :: "(string \<times> json) list \<Rightarrow> string \<Rightarrow> json \<Rightarrow> (string \<times> json) list" where
  "obj_put kvs k v =
     (if map_of kvs k \<noteq> None then AList.update k v kvs
      else if is_index_key k then insert_index k v kvs
      else kvs @ [(k, v)])"

definition is_json_ws :: "char \<Rightarrow> bool" where
  "is_json_ws c = (c = CHR '' '' \<or> c = CHR 0x09 \<or> c = CHR 0x0A \<or> c = CHR 0x0D)"

definition skip_ws :: "string \<Rightarrow> string" where
  "skip_ws cs = dropWhile is_json_ws cs"

text \<open>The character an escape \<^verbatim>\<open>\c\<close> of a string literal stands for.\<close>

definition unescape :: "char \<Rightarrow> char option" where
  \<open>unescape e = map_of
     [(CHR ''"'', CHR ''"''), (CHR 0x5C, CHR 0x5C), (CHR ''/'', CHR ''/''),
      (CHR ''b'', CHR 0x08), (CHR ''f'', CHR 0x0C), (CHR ''n'', CHR 0x0A),
      (CHR ''r'', CHR 0x0D), (CHR ''t'', CHR 0x09)] e\<close>

definition hex4 :: "char \<Rightarrow> char \<Rightarrow> char \<Rightarrow> char \<Rightarrow> int option" where
  "hex4 a b c d =
     (case (hex_val a, hex_val b, hex_val c, hex_val d) of
        (Some w, Some x, Some y, Some z) \<Rightarrow> Some (((w * 16 + x) * 16 + y) * 16 + z)
      | _ \<Rightarrow> None)"

text \<open>
  \<open>lex_string\<close> reads a string literal after its opening quote and returns its
  characters and the text after the closing quote.
\<close>

fun lex_string :: "string \<Rightarrow> error + (string \<times> string)" where
  "lex_string [] = Inl SyntaxError"
| \<open>lex_string (c # cs) =
     (if c = CHR ''"'' then Inr ([], cs)
      else if c = CHR 0x5C then
        (case cs of
           [] \<Rightarrow> Inl SyntaxError
         | e # cs' \<Rightarrow>
             if e = CHR ''u'' then
               (case cs' of
                  h1 # h2 # h3 # h4 # cs'' \<Rightarrow>
                    (case hex4 h1 h2 h3 h4 of
                       None \<Rightarrow> Inl SyntaxError
                     | Some n \<Rightarrow>
                         if n < 256 then
                           ebind (lex_string cs'') (\<lambda>(s, r). Inr (char_of n # s, r))
                         else Inl Unsupported)
                | _ \<Rightarrow> Inl SyntaxError)
             else
               (case unescape e of
                  None \<Rightarrow> Inl SyntaxError
                | Some d \<Rightarrow> ebind (lex_string cs') (\<lambda>(s, r). Inr (d # s, r))))
      else if (of_char c :: nat) < 32 then Inl SyntaxError
      else ebind (lex_string cs) (\<lambda>(s, r). Inr (c # s, r)))\<close>

text \<open>
  \<open>lex_number\<close> reads a number literal: an optional minus, then \<^verbatim>\<open>0\<close> or a run of
  digits that does not start with \<^verbatim>\<open>0\<close>.
\<close>

definition lex_number :: "string \<Rightarrow> error + (int \<times> string)" where
  "lex_number cs =
     (let neg = (cs \<noteq> [] \<and> hd cs = CHR ''-'');
          r = (if neg then tl cs else cs);
          ds = takeWhile is_digit r;
          rest = dropWhile is_digit r
      in if ds = [] \<or> (hd ds = CHR ''0'' \<and> 1 < length ds) then Inl SyntaxError
         else if (rest \<noteq> [] \<and> hd rest \<in> set ''.eE'') \<or> 9007199254740991 < digits_val ds
           then Inl Unsupported
         else Inr (if neg then - digits_val ds else digits_val ds, rest))"

definition lex_literal :: "string \<Rightarrow> error + (json \<times> string)" where
  "lex_literal cs =
     (if take 4 cs = ''null'' then Inr (JNull, drop 4 cs)
      else if take 4 cs = ''true'' then Inr (JBool True, drop 4 cs)
      else if take 5 cs = ''false'' then Inr (JBool False, drop 5 cs)
      else Inl SyntaxError)"

text \<open>
  The recursive descent over values, array elements and object members. The first
  argument bounds the number of nested calls; \<open>JSON_parse\<close> starts it above the
  length of the text, and running out of it is \<open>Unsupported\<close>.
\<close>

fun parse_value :: "nat \<Rightarrow> string \<Rightarrow> error + (json \<times> string)"
  and parse_elems :: "nat \<Rightarrow> json list \<Rightarrow> string \<Rightarrow> error + (json \<times> string)"
  and parse_members :: "nat \<Rightarrow> (string \<times> json) list \<Rightarrow> string \<Rightarrow> error + (json \<times> string)"
where
  "parse_value 0 cs = Inl Unsupported"
| \<open>parse_value (Suc n) cs =
     (case skip_ws cs of
        [] \<Rightarrow> Inl SyntaxError
      | c # r \<Rightarrow>
          if c = CHR ''{'' then
            (case skip_ws r of
               [] \<Rightarrow> Inl SyntaxError
             | c' # r' \<Rightarrow> if c' = CHR ''}'' then Inr (JObj [], r') else parse_members n [] (c' # r'))
          else if c = CHR ''['' then
            (case skip_ws r of
               [] \<Rightarrow> Inl SyntaxError
             | c' # r' \<Rightarrow> if c' = CHR '']'' then Inr (JArr [], r') else parse_elems n [] (c' # r'))
          else if c = CHR ''"'' then ebind (lex_string r) (\<lambda>(s, r'). Inr (JStr s, r'))
          else if c = CHR ''-'' \<or> is_digit c then
            ebind (lex_number (c # r)) (\<lambda>(i, r'). Inr (JNum i, r'))
          else lex_literal (c # r))\<close>
| "parse_elems 0 acc cs = Inl Unsupported"
| \<open>parse_elems (Suc n) acc cs =
     ebind (parse_value n cs) (\<lambda>(v, r).
       case skip_ws r of
         [] \<Rightarrow> Inl SyntaxError
       | c # r' \<Rightarrow>
           if c = CHR '','' then parse_elems n (acc @ [v]) r'
           else if c = CHR '']'' then Inr (JArr (acc @ [v]), r')
           else Inl SyntaxError)\<close>
| "parse_members 0 acc cs = Inl Unsupported"
| \<open>parse_members (Suc n) acc cs =
     (case skip_ws cs of
        [] \<Rightarrow> Inl SyntaxError
      | q # r0 \<Rightarrow>
          if q \<noteq> CHR ''"'' then Inl SyntaxError
          else
            ebind (lex_string r0) (\<lambda>(k, r1).
              case skip_ws r1 of
                [] \<Rightarrow> Inl SyntaxError
              | colon # r2 \<Rightarrow>
                  if colon \<noteq> CHR '':'' then Inl SyntaxError
                  else
                    ebind (parse_value n r2) (\<lambda>(v, r3).
                      case skip_ws r3 of
                        [] \<Rightarrow> Inl SyntaxError
                      | c # r4 \<Rightarrow>
                          if c = CHR '','' then parse_members n (obj_put acc k v) r4
                          else if c = CHR ''}'' then Inr (JObj (obj_put acc k v), r4)
                          else Inl SyntaxError)))\<close>

definition JSON_parse :: "string \<Rightarrow> error + json" where
  "JSON_parse s =
     ebind (parse_value (Suc (length s)) s) (\<lambda>(v, r).
       if skip_ws r = [] then Inr v else Inl SyntaxError)"

section \<open>The key-value store\<close>

text \<open>
  \<^verbatim>\<open>createLRUCache\<close> wraps the \<^verbatim>\<open>lru-cache\<close> package behind the interface
  \<^verbatim>\<open>KeyValueCache\<close>, with the options \<^verbatim>\<open>max: options.size\<close> and
  \<^verbatim>\<open>length: (n, key) => n.length + key.length\<close>. The package is not part of the
  repository; the model keeps what the middleware relies on:
  \<^item> an entry set with a \<^verbatim>\<open>maxAge\<close> is stale, and \<^verbatim>\<open>get\<close> answers \<^verbatim>\<open>undefined\<close> for it,
    once more than \<^verbatim>\<open>maxAge\<close> milliseconds have passed since it was set; an entry set
    without one does not expire;
  \<^item> an entry whose length, that of its value plus that of its key, exceeds \<^verbatim>\<open>max\<close>
    is not stored, and \<^verbatim>\<open>set\<close> drops the entry its key had before; a \<^verbatim>\<open>max\<close> that is
    not positive is no bound.

  The package also keeps the entries in the order of their last use and, when the
  lengths of all entries together exceed \<^verbatim>\<open>max\<close>, drops the least recently used ones
  (never the one just set, which fits alone). This eviction of other entries is not
  modelled: the store below never loses an entry to the writing of another.
\<close>

record slot =
  slot_value :: string
  slot_now :: int
  slot_maxAge :: "int option"

record lru =
  lru_max :: int
  lru_items :: "string \<Rightarrow> slot option"

text \<open>The option \<^verbatim>\<open>size\<close> is 50000000 when \<^verbatim>\<open>createLRUCache\<close> is called without options.\<close>

definition createLRUCache :: "int option \<Rightarrow> lru" where
  "createLRUCache options =
     \<lparr>lru_max = (case options of None \<Rightarrow> 50000000 | Some size' \<Rightarrow> size'),
      lru_items = Map.empty\<rparr>"

definition lru_get :: "lru \<Rightarrow> int \<Rightarrow> string \<Rightarrow> string option" where
  "lru_get c now key =
     (case lru_items c key of
        None \<Rightarrow> None
      | Some e \<Rightarrow>
          (case slot_maxAge e of
             None \<Rightarrow> Some (slot_value e)
           | Some m \<Rightarrow> if now - slot_now e > m then None else Some (slot_value e)))"

text \<open>The length of an entry, and whether it fits the store.\<close>

definition entry_length :: "string \<Rightarrow> string \<Rightarrow> int" where
  "entry_length n key = int (length n) + int (length key)"

definition fits :: "lru \<Rightarrow> string \<Rightarrow> string \<Rightarrow> bool" where
  "fits c val key = (lru_max c \<le> 0 \<or> entry_length val key \<le> lru_max c)"

definition lru_set :: "lru \<Rightarrow> int \<Rightarrow> string \<Rightarrow> string \<Rightarrow> int option \<Rightarrow> lru" where
  "lru_set c now key val maxAge =
     (if fits c val key then
        c\<lparr>lru_items := (lru_items c)(key \<mapsto> \<lparr>slot_value = val, slot_now = now, slot_maxAge = maxAge\<rparr>)\<rparr>
      else c\<lparr>lru_items := (lru_items c)(key := None)\<rparr>)"

text \<open>The two methods of the object \<^verbatim>\<open>createLRUCache\<close> returns.\<close>

definition store_get :: "lru \<Rightarrow> int \<Rightarrow> string \<Rightarrow> string option" where
  "store_get c now key = lru_get c now key"

definition store_set :: "lru \<Rightarrow> int \<Rightarrow> string \<Rightarrow> string \<Rightarrow> int \<Rightarrow> lru" where
  "store_set c now key val maxAge =
     (if maxAge \<noteq> 0 then lru_set c now key val (Some maxAge)
      else lru_set c now key val None)"

section \<open>Request, response and the state of a middleware chain\<close>

record request =
  "method" :: string
  body :: "json option"
  query :: "json option"

text \<open>
  Of the response: its status code, the headers set so far, the chunks written, how
  often \<^verbatim>\<open>res.end()\<close> was called, and the property \<^verbatim>\<open>res['gqlResponse']\<close> that the
  GraphQL handler attaches.
\<close>

record response =
  statusCode :: nat
  headers :: "(string \<times> string) list"
  written :: "string list"
  ended :: nat
  gqlResponse :: "string option"

text \<open>
  A middleware runs on the store, the response and the count of its calls of
  \<^verbatim>\<open>next()\<close>. Header names are compared as they are written; the program writes
  each of its headers in one spelling.
\<close>

record mw =
  cache :: lru
  res :: response
  next_calls :: nat

definition setHeader :: "string \<Rightarrow> string \<Rightarrow> response \<Rightarrow> response" where
  "setHeader name val r = r\<lparr>headers := AList.update name val (headers r)\<rparr>"

section \<open>The functions of \<^verbatim>\<open>graphql-middleware.ts\<close>\<close>

definition isPersistedQuery :: "json option \<Rightarrow> error + json option" where
  "isPersistedQuery data =
     ebind (get_prop data ''extensions'') (\<lambda>extensions.
       if truthy extensions then
         ebind (JSON_parse (js_string extensions)) (\<lambda>payload.
           get_prop (Some payload) ''persistedQuery'')
       else Inr (Some JNull))"

text \<open>
  The white space of the regular expression \<^verbatim>\<open>\s\<close>, among the code units below 256:
  tab, line feed, vertical tab, form feed, carriage return, space and the no-break
  space.
\<close>

definition is_space :: "char \<Rightarrow> bool" where
  "is_space c = (c \<in> set [CHR 0x09, CHR 0x0A, CHR 0x0B, CHR 0x0C, CHR 0x0D, CHR 0x20, CHR 0xA0])"

text \<open>
  \<open>hashPostBody\<close> takes the digest \<^verbatim>\<open>sha256().update(q).digest('hex')\<close> of the package
  \<^verbatim>\<open>hash.js\<close> as its first argument. A \<^verbatim>\<open>query\<close> that is not a string has no method
  \<^verbatim>\<open>replace\<close>: the call throws a TypeError.
\<close>

definition hashPostBody :: "(string \<Rightarrow> string) \<Rightarrow> json option \<Rightarrow> error + string" where
  "hashPostBody sha256 q =
     (case q of
        Some (JStr s) \<Rightarrow> Inr (sha256 (filter (\<lambda>c. \<not> is_space c) s))
      | _ \<Rightarrow> Inl TypeError)"

definition extractCacheKey :: "json option \<Rightarrow> error + string" where
  "extractCacheKey pq =
     ebind (get_prop pq ''version'') (\<lambda>version.
     ebind (get_prop pq ''sha256Hash'') (\<lambda>sha256Hash.
       Inr (js_string version @ ''.'' @ js_string sha256Hash)))"

text \<open>\<^verbatim>\<open>delete v.k\<close>: a TypeError on \<^verbatim>\<open>null\<close>, nothing to do on a primitive or an array.\<close>

fun delete_prop :: "json \<Rightarrow> string \<Rightarrow> error + json" where
  "delete_prop JNull k = Inl TypeError"
| "delete_prop (JObj kvs) k = Inr (JObj (filter (\<lambda>kv. fst kv \<noteq> k) kvs))"
| "delete_prop v k = Inr v"

text \<open>
  \<open>removeExtensions\<close> is applied to \<^verbatim>\<open>res['gqlResponse']\<close>, a string once the GraphQL
  handler has run and \<^verbatim>\<open>undefined\<close> before; \<^verbatim>\<open>JSON.parse(undefined)\<close> throws a
  SyntaxError.
\<close>

definition removeExtensions :: "string option \<Rightarrow> error + string" where
  "removeExtensions obj =
     ebind (JSON_parse (case obj of None \<Rightarrow> ''undefined'' | Some s \<Rightarrow> s)) (\<lambda>cachedValue.
     ebind (delete_prop cachedValue ''extensions'') (\<lambda>cachedValue'.
       Inr (JSON_stringify cachedValue')))"

text \<open>The length of the UTF-8 encoding: two bytes for a code unit from 128 on.\<close>

definition byteLength :: "string \<Rightarrow> int" where
  "byteLength s = int (length s) + int (length (filter (\<lambda>c. 128 \<le> (of_char c :: nat)) s))"

text \<open>
  \<open>sendContent\<close>: three headers, one write, one end. \<^verbatim>\<open>Buffer.byteLength\<close> and
  \<^verbatim>\<open>res.write\<close> want a string and throw a TypeError on another value.
\<close>

definition sendContent :: "response \<Rightarrow> json option \<Rightarrow> bool \<Rightarrow> error + response" where
  "sendContent r val cacheHit =
     (case val of
        Some (JStr s) \<Rightarrow>
          (let r1 = setHeader ''X-Cache'' (if cacheHit then ''HIT'' else ''MISS'') r;
               r2 = setHeader ''Content-Type'' ''application/json'' r1;
               r3 = setHeader ''Content-Length'' (show_int (byteLength s)) r2
           in Inr (r3\<lparr>written := written r3 @ [s], ended := Suc (ended r3)\<rparr>))
      | _ \<Rightarrow> Inl TypeError)"

text \<open>
  ToNumber, where the model has it: \<^verbatim>\<open>null\<close> is 0, \<^verbatim>\<open>false\<close> 0 and \<^verbatim>\<open>true\<close> 1.
\<close>

fun to_num :: "json \<Rightarrow> error + int" where
  "to_num (JNum n) = Inr n"
| "to_num JNull = Inr 0"
| "to_num (JBool b) = Inr (if b then 1 else 0)"
| "to_num v = Inl Unsupported"

subsection \<open>Arithmetic on doubles\<close>

text \<open>
  A Number is an IEEE double. \<open>fl x\<close> is the double nearest to the rational \<open>x\<close>: its
  53 significant bits, a tie going to the even one. The range of the exponent is not
  modelled (no overflow, no subnormal numbers); the operands of the program, integer
  times and durations and their quotients by 1000, stay far inside it.
\<close>

text \<open>The integer part of the binary logarithm of a positive integer.\<close>

function ilog2 :: "int \<Rightarrow> int" where
  "ilog2 n = (if n < 2 then 0 else ilog2 (n div 2) + 1)"
  by pat_completeness auto
termination
  by (relation "measure nat") auto

declare ilog2.simps [simp del]

text \<open>The binary exponent of a positive rational: \<open>2 ^ flog2 x \<le> x < 2 ^ (flog2 x + 1)\<close>.\<close>

definition flog2 :: "rat \<Rightarrow> int" where
  "flog2 x =
     (let (p, q) = quotient_of x; k = ilog2 p - ilog2 q
      in if 2 powi k \<le> x then k else k - 1)"

text \<open>The nearest integer, a tie going to the even one.\<close>

definition rne :: "rat \<Rightarrow> int" where
  "rne q =
     (let f = \<lfloor>q\<rfloor>; r = q - of_int f
      in if r < 1 / 2 then f else if 1 / 2 < r then f + 1 else if even f then f else f + 1)"

definition fl :: "rat \<Rightarrow> rat" where
  "fl x =
     (if x = 0 then 0
      else let u = 2 powi (flog2 \<bar>x\<bar> - 52) in of_int (rne (x / u)) * u)"

text \<open>\<^verbatim>\<open>Math.round\<close>: the nearest integer, a half rounded up.\<close>

definition Math_round :: "rat \<Rightarrow> int" where
  "Math_round x = \<lfloor>x + 1 / 2\<rfloor>"

text \<open>
  \<^verbatim>\<open>Math.round(duration / 1000 - (Date.now() - at) / 1000)\<close>, each of the four
  operations rounded to a double. \<open>None\<close> is \<^verbatim>\<open>NaN\<close>, the result when \<^verbatim>\<open>duration\<close> or
  \<^verbatim>\<open>at\<close> is \<^verbatim>\<open>undefined\<close>.
\<close>

definition durationLeft :: "json option \<Rightarrow> json option \<Rightarrow> int \<Rightarrow> error + int option" where
  "durationLeft duration at' now =
     (case (duration, at') of
        (Some d, Some a) \<Rightarrow>
          ebind (to_num d) (\<lambda>d'.
          ebind (to_num a) (\<lambda>a'.
            Inr (Some (Math_round
              (fl (fl (of_int d' / 1000) - fl (fl (of_int now - of_int a') / 1000)))))))
      | (Some d, None) \<Rightarrow> ebind (to_num d) (\<lambda>d'. Inr None)
      | (None, Some a) \<Rightarrow> ebind (to_num a) (\<lambda>a'. Inr None)
      | (None, None) \<Rightarrow> Inr None)"

definition show_number :: "int option \<Rightarrow> string" where
  "show_number n = (case n of None \<Rightarrow> ''NaN'' | Some i \<Rightarrow> show_int i)"

text \<open>
  The first \<^verbatim>\<open>if\<close> \<^verbatim>\<open>else if\<close> of \<open>getFromCacheIfAny\<close>: \<open>Some\<close> of the state when the
  function returns from it, \<open>None\<close> when control falls through.
\<close>

definition cache_lookup ::
  "(string \<Rightarrow> string) \<Rightarrow> int \<Rightarrow> request \<Rightarrow> json option \<Rightarrow> json option \<Rightarrow> mw \<Rightarrow> error + mw option" where
  "cache_lookup sha256 now req pQuery data_query w =
     (if method req = ''POST'' \<and> truthy data_query then
        ebind (hashPostBody sha256 data_query) (\<lambda>key.
          case store_get (cache w) now key of
            None \<Rightarrow> Inr None
          | Some val \<Rightarrow>
              if val = [] then Inr None
              else
                ebind (JSON_parse val) (\<lambda>entry.
                ebind (get_prop (Some entry) ''payload'') (\<lambda>payload.
                ebind (sendContent (res w) payload True) (\<lambda>r.
                  Inr (Some (w\<lparr>res := r\<rparr>))))))
      else if method req = ''GET'' \<and> truthy pQuery then
        ebind (extractCacheKey pQuery) (\<lambda>key.
          case store_get (cache w) now key of
            None \<Rightarrow> Inr None
          | Some val \<Rightarrow>
              if val = [] then Inr None
              else
                ebind (JSON_parse val) (\<lambda>entry.
                ebind (get_prop (Some entry) ''duration'') (\<lambda>duration.
                ebind (get_prop (Some entry) ''at'') (\<lambda>at'.
                ebind (get_prop (Some entry) ''payload'') (\<lambda>payload.
                ebind (durationLeft duration at' now) (\<lambda>left.
                ebind (sendContent
                         (setHeader ''Cache-Control''
                            (''public, max-age='' @ show_number left @ '', s-maxage='' @ show_number left)
                            (res w))
                         payload True) (\<lambda>r.
                  Inr (Some (w\<lparr>res := r\<rparr>)))))))))
      else Inr None)"

definition not_found_body :: json where
  "not_found_body = JObj [(''errors'', JArr [JObj [(''message'', JStr ''PersistedQueryNotFound'')]])]"

definition getFromCacheIfAny :: "(string \<Rightarrow> string) \<Rightarrow> int \<Rightarrow> request \<Rightarrow> mw \<Rightarrow> error + mw" where
  "getFromCacheIfAny sha256 now req w =
     (let data = (if method req = ''POST'' then body req else query req) in
      ebind (isPersistedQuery data) (\<lambda>pQuery.
      ebind (get_prop data ''query'') (\<lambda>data_query.
      ebind (cache_lookup sha256 now req pQuery data_query w) (\<lambda>returned.
        case returned of
          Some w' \<Rightarrow> Inr w'
        | None \<Rightarrow>
            if method req = ''GET'' \<and> truthy pQuery \<and> \<not> truthy data_query then
              ebind (sendContent (res w) (Some (JStr (JSON_stringify not_found_body))) False) (\<lambda>r.
                Inr (w\<lparr>res := r\<rparr>))
            else Inr (w\<lparr>next_calls := Suc (next_calls w)\<rparr>)))))"

text \<open>
  The reduction \<^verbatim>\<open>hints.reduce((min, p) => (p.maxAge < min ? p.maxAge : min), 60)\<close>.
  A comparison with \<^verbatim>\<open>undefined\<close> is false.
\<close>

fun hints_reduce :: "json list \<Rightarrow> json \<Rightarrow> error + json" where
  "hints_reduce [] m = Inr m"
| "hints_reduce (p # ps) m =
     ebind (get_prop (Some p) ''maxAge'') (\<lambda>maxAge.
       case maxAge of
         None \<Rightarrow> hints_reduce ps m
       | Some a \<Rightarrow>
           ebind (to_num a) (\<lambda>x.
           ebind (to_num m) (\<lambda>y.
             hints_reduce ps (if x < y then a else m))))"

text \<open>\<^verbatim>\<open>extensions.cacheControl.hints.reduce(..., 60)\<close>: only an array has \<^verbatim>\<open>reduce\<close>.\<close>

definition minAge_of :: "json option \<Rightarrow> error + json" where
  "minAge_of cacheControl =
     ebind (get_prop cacheControl ''hints'') (\<lambda>hints.
       case hints of
         Some (JArr ps) \<Rightarrow> hints_reduce ps (JNum 60)
       | _ \<Rightarrow> Inl TypeError)"

text \<open>
  \<^verbatim>\<open>minAge * 1000\<close>: the product of two doubles, which is the product of the integers
  as long as that is a safe integer. Beyond, the product is rounded; the model stops
  there.
\<close>

definition times_1000 :: "int \<Rightarrow> error + int" where
  "times_1000 n = (if \<bar>n * 1000\<bar> \<le> 9007199254740991 then Inr (n * 1000) else Inl Unsupported)"

definition storeInCache :: "(string \<Rightarrow> string) \<Rightarrow> int \<Rightarrow> request \<Rightarrow> mw \<Rightarrow> error + mw" where
  "storeInCache sha256 now req w =
     (let data = (if method req = ''POST'' then body req else query req) in
      ebind (isPersistedQuery data) (\<lambda>pQuery.
      ebind (get_prop data ''query'') (\<lambda>data_query.
        if (method req = ''GET'' \<and> truthy pQuery) \<or> (method req = ''POST'' \<and> truthy data_query) then
          (let gqlData = gqlResponse (res w) in
           ebind (JSON_parse (case gqlData of None \<Rightarrow> ''undefined'' | Some s \<Rightarrow> s)) (\<lambda>parsed.
           ebind (get_prop (Some parsed) ''extensions'') (\<lambda>extensions.
           ebind (if truthy extensions then get_prop extensions ''cacheControl'' else Inr None)
             (\<lambda>cacheControl.
               if truthy extensions \<and> truthy cacheControl then
                 ebind (minAge_of cacheControl) (\<lambda>minAge.
                 ebind (to_num minAge) (\<lambda>n.
                 ebind (times_1000 n) (\<lambda>minAgeInMs.
                   ebind (if method req = ''GET'' then extractCacheKey pQuery
                          else hashPostBody sha256 data_query) (\<lambda>key.
                   ebind (removeExtensions gqlData) (\<lambda>payload.
                     Inr (w\<lparr>cache :=
                            store_set (cache w) now key
                              (JSON_stringify
                                 (JObj [(''payload'', JStr payload), (''at'', JNum now),
                                        (''duration'', JNum minAgeInMs)]))
                              minAgeInMs,
                          next_calls := Suc (next_calls w)\<rparr>))))))
               else Inr (w\<lparr>next_calls := Suc (next_calls w)\<rparr>)))))
        else Inr (w\<lparr>next_calls := Suc (next_calls w)\<rparr>))))"

definition extensionsFilter :: "mw \<Rightarrow> error + mw" where
  "extensionsFilter w =
     ebind (removeExtensions (gqlResponse (res w))) (\<lambda>s.
       Inr (w\<lparr>res := (res w)\<lparr>gqlResponse := Some s\<rparr>, next_calls := Suc (next_calls w)\<rparr>))"

definition graphqlResponseHandler :: "mw \<Rightarrow> error + mw" where
  "graphqlResponseHandler w =
     ebind (sendContent (res w) (map_option JStr (gqlResponse (res w))) False) (\<lambda>r.
       Inr (w\<lparr>res := r\<rparr>))"

section \<open>Query texts that differ only in white space\<close>

text \<open>
  Two texts differ only in white space when one becomes the other by dropping and
  inserting white-space characters: every other character is kept, in its place.
\<close>

inductive same_but_space :: "string \<Rightarrow> string \<Rightarrow> bool" where
  ends: "same_but_space [] []"
| skip_left: "is_space c \<Longrightarrow> same_but_space a b \<Longrightarrow> same_but_space (c # a) b"
| skip_right: "is_space c \<Longrightarrow> same_but_space a b \<Longrightarrow> same_but_space a (c # b)"
| same_head: "same_but_space a b \<Longrightarrow> same_but_space (c # a) (c # b)"

section \<open>Fixtures\<close>

text \<open>A response nothing has been written to, as Node hands it to the first handler.\<close>

definition fresh_response :: response where
  "fresh_response = \<lparr>statusCode = 200, headers = [], written = [], ended = 0, gqlResponse = None\<rparr>"

text \<open>The chain's state in front of an empty store of the default size.\<close>

definition start :: mw where
  "start = \<lparr>cache = createLRUCache None, res = fresh_response, next_calls = 0\<rparr>"

definition hints_demo :: "json list" where
  "hints_demo =
     [JObj [(''path'', JArr [JStr ''books'']), (''maxAge'', JNum 65)],
      JObj [(''path'', JArr [JStr ''books'', JNum 0, JStr ''title'']), (''maxAge'', JNum 30)]]"

definition cacheControl_demo :: json where
  "cacheControl_demo = JObj [(''version'', JNum 1), (''hints'', JArr hints_demo)]"

text \<open>
  A \<^verbatim>\<open>GET\<close> that carries the descriptor of a persisted query in its \<^verbatim>\<open>extensions\<close>
  parameter: alone, and together with the text of the query.
\<close>

definition descriptor_text :: string where
  \<open>descriptor_text = ''{"persistedQuery":{"version":"1","sha256Hash":"abc"}}''\<close>

definition descriptor_demo :: "(string \<times> json) list" where
  "descriptor_demo = [(''version'', JStr ''1''), (''sha256Hash'', JStr ''abc'')]"

definition get_descriptor :: request where
  "get_descriptor =
     \<lparr>method = ''GET'', body = None, query = Some (JObj [(''extensions'', JStr descriptor_text)])\<rparr>"

definition get_descriptor_query :: request where
  "get_descriptor_query =
     \<lparr>method = ''GET'', body = None,
      query = Some (JObj [(''extensions'', JStr descriptor_text), (''query'', JStr ''{ books { title } }'')])\<rparr>"

text \<open>A \<^verbatim>\<open>POST\<close> with the text of a query in its body.\<close>

definition post_query :: request where
  "post_query =
     \<lparr>method = ''POST'', body = Some (JObj [(''query'', JStr ''{ books { title } }'')]), query = Some (JObj [])\<rparr>"

text \<open>An entry of the store as \<open>storeInCache\<close> writes it, and a store that holds it.\<close>

definition entry_demo :: string where
  \<open>entry_demo =
     JSON_stringify
       (JObj [(''payload'', JStr ''{"data":{"books":[]}}''), (''at'', JNum 100), (''duration'', JNum 60000)])\<close>

definition stored :: mw where
  "stored = start\<lparr>cache := store_set (createLRUCache None) 100 ''1.abc'' entry_demo 60000\<rparr>"

text \<open>
  Responses of the engine: without extensions, with a hint of 65 seconds, and with a
  hint of 0 seconds; and the state of the chain once the GraphQL handler has attached
  a response.
\<close>

definition plain_response :: string where
  \<open>plain_response = ''{"data":{"books":[]}}''\<close>

definition hinted_response :: string where
  \<open>hinted_response =
     ''{"data":{"books":[]},"extensions":{"cacheControl":{"version":1,"hints":[{"path":["books"],"maxAge":65}]}}}''\<close>

definition zero_hint_response :: string where
  \<open>zero_hint_response =
     ''{"data":{"books":[]},"extensions":{"cacheControl":{"version":1,"hints":[{"path":["books"],"maxAge":0}]}}}''\<close>

definition after_engine :: "string \<Rightarrow> mw" where
  "after_engine gql = start\<lparr>res := fresh_response\<lparr>gqlResponse := Some gql\<rparr>\<rparr>"

text \<open>
  Requests whose \<^verbatim>\<open>extensions\<close> parameter is not JSON, is the JSON text \<^verbatim>\<open>null\<close>, and
  is missing.
\<close>

definition get_bad_extensions :: request where
  "get_bad_extensions =
     \<lparr>method = ''GET'', body = None,
      query = Some (JObj [(''extensions'', JStr ''{''), (''query'', JStr ''{ books { title } }'')])\<rparr>"

definition get_null_extensions :: request where
  "get_null_extensions =
     \<lparr>method = ''GET'', body = None,
      query = Some (JObj [(''extensions'', JStr ''null''), (''query'', JStr ''{ books { title } }'')])\<rparr>"

definition get_no_extensions :: request where
  "get_no_extensions =
     \<lparr>method = ''GET'', body = None, query = Some (JObj [(''query'', JStr ''{ books { title } }'')])\<rparr>"

text \<open>The \<^verbatim>\<open>extensions\<close> of a response with one hint.\<close>

definition hints_of :: "int \<Rightarrow> json" where
  "hints_of n = JObj [(''cacheControl'',
       JObj [(''version'', JNum 1), (''hints'', JArr [JObj [(''path'', JArr [JStr ''books'']), (''maxAge'', JNum n)]])])]"

definition get_other_extensions :: request where
  \<open>get_other_extensions =
     \<lparr>method = ''GET'', body = None,
      query = Some (JObj [(''extensions'', JStr ''{"tracing":true}''), (''query'', JStr ''{ books { title } }'')])\<rparr>\<close>





section \<open>Basic facts\<close>

lemma ebind_Inr [simp]: "ebind (Inr x) f = f x"
  by (simp add: ebind_def)

lemma ebind_Inl [simp]: "ebind (Inl e) f = Inl e"
  by (simp add: ebind_def)

section \<open>The reduction of the hints\<close>

lemma hints_reduce_numbers:
  "map (\<lambda>p. get_prop (Some p) ''maxAge'') ps = map (\<lambda>n. Inr (Some (JNum n))) ns \<Longrightarrow>
   hints_reduce ps (JNum m) = Inr (JNum (fold (\<lambda>a b. if a < b then a else b) ns m))"
proof (induction ps arbitrary: ns m)
  case Nil
  then show ?case by simp
next
  case (Cons p ps)
  then obtain n ns' where ns: "ns = n # ns'" by (cases ns) auto
  with Cons.prems have p: "get_prop (Some p) ''maxAge'' = Inr (Some (JNum n))"
    and rest: "map (\<lambda>p. get_prop (Some p) ''maxAge'') ps = map (\<lambda>n. Inr (Some (JNum n))) ns'"
    by simp_all
  show ?case
    using Cons.IH [OF rest] by (simp add: ns p)
qed

lemma fold_min_Min:
  "fold (\<lambda>a b. if a < b then a else b) ns (m::int) = Min (insert m (set ns))"
proof (induction ns arbitrary: m)
  case Nil
  then show ?case by simp
next
  case (Cons n ns)
  have "(if n < m then n else m) = min n m" by (simp add: min_def)
  then have "fold (\<lambda>a b. if a < b then a else b) (n # ns) m = Min (insert (min n m) (set ns))"
    using Cons.IH [of "min n m"] by simp
  also have "\<dots> = Min (insert m (set (n # ns)))"
    by (cases "set ns = {}") (simp_all add: min.commute min.left_commute min.assoc)
  finally show ?case .
qed

text \<open>
  Claim C7. When the response carries a list of hints whose \<^verbatim>\<open>maxAge\<close> are the numbers
  \<open>ns\<close>, the \<^verbatim>\<open>minAge\<close> that \<open>storeInCache\<close> computes is the fold of the hints from
  the initial value 60, which is the minimum of 60 and every \<^verbatim>\<open>maxAge\<close>; it never
  exceeds 60, and it is 60 for an empty list.
\<close>

theorem minAge_is_min_with_60:
  assumes "get_prop cacheControl ''hints'' = Inr (Some (JArr ps))"
    and "map (\<lambda>p. get_prop (Some p) ''maxAge'') ps = map (\<lambda>n. Inr (Some (JNum n))) ns"
  shows "minAge_of cacheControl = Inr (JNum (fold (\<lambda>a b. if a < b then a else b) ns 60))
       \<and> fold (\<lambda>a b. if a < b then a else b) ns 60 = Min (insert 60 (set ns))
       \<and> Min (insert 60 (set ns)) \<le> 60
       \<and> (ps = [] \<longrightarrow> minAge_of cacheControl = Inr (JNum 60))"
  using assms hints_reduce_numbers [OF assms(2), of 60]
  by (auto simp add: minAge_of_def fold_min_Min)

theorem minAge_is_min_with_60_witness:
  "get_prop (Some cacheControl_demo) ''hints'' = Inr (Some (JArr hints_demo))
   \<and> map (\<lambda>p. get_prop (Some p) ''maxAge'') hints_demo = map (\<lambda>n. Inr (Some (JNum n))) [65, 30]
   \<and> minAge_of (Some cacheControl_demo) = Inr (JNum 30)"
proof -
  have h1: "get_prop (Some cacheControl_demo) ''hints'' = Inr (Some (JArr hints_demo))"
    by (simp add: cacheControl_demo_def)
  have h2: "map (\<lambda>p. get_prop (Some p) ''maxAge'') hints_demo = map (\<lambda>n. Inr (Some (JNum n))) [65, 30]"
    by (simp add: hints_demo_def)
  from minAge_is_min_with_60 [OF h1 h2] h1 h2 show ?thesis
    by simp
qed

section \<open>The fingerprint of a query text\<close>

lemma same_but_space_filter:
  "same_but_space a b \<Longrightarrow> filter (\<lambda>c. \<not> is_space c) a = filter (\<lambda>c. \<not> is_space c) b"
  by (induction rule: same_but_space.induct) simp_all

lemma same_but_space_drop: "same_but_space a (filter (\<lambda>c. \<not> is_space c) a)"
  by (induction a) (auto intro: same_but_space.intros)

lemma same_but_space_sym: "same_but_space a b \<Longrightarrow> same_but_space b a"
  by (induction rule: same_but_space.induct) (auto intro: same_but_space.intros)

lemma same_but_space_residue:
  "same_but_space a r \<Longrightarrow> same_but_space r b \<Longrightarrow> list_all (\<lambda>c. \<not> is_space c) r \<Longrightarrow> same_but_space a b"
proof (induction a r arbitrary: b rule: same_but_space.induct)
  case ends
  then show ?case by simp
next
  case (skip_left c a r)
  then show ?case by (auto intro: same_but_space.skip_left)
next
  case (skip_right c a r)
  then show ?case by simp
next
  case (same_head a r c)
  from same_head.prems(1) same_head.prems(2) same_head.IH show ?case
  proof (induction "c # r" b arbitrary: rule: same_but_space.induct)
    case (skip_left b)
    then show ?case using same_head.prems by simp
  next
    case (skip_right c' b)
    then show ?case by (auto intro: same_but_space.skip_right)
  next
    case (same_head b)
    then show ?case by (auto intro: same_but_space.same_head)
  qed
qed

lemma same_but_space_iff:
  "same_but_space a b \<longleftrightarrow> filter (\<lambda>c. \<not> is_space c) a = filter (\<lambda>c. \<not> is_space c) b"
proof
  assume "same_but_space a b"
  then show "filter (\<lambda>c. \<not> is_space c) a = filter (\<lambda>c. \<not> is_space c) b"
    by (rule same_but_space_filter)
next
  assume eq: "filter (\<lambda>c. \<not> is_space c) a = filter (\<lambda>c. \<not> is_space c) b"
  have "same_but_space a (filter (\<lambda>c. \<not> is_space c) a)"
    by (rule same_but_space_drop)
  moreover have "same_but_space (filter (\<lambda>c. \<not> is_space c) a) b"
    unfolding eq by (rule same_but_space_sym) (rule same_but_space_drop)
  moreover have "list_all (\<lambda>c. \<not> is_space c) (filter (\<lambda>c. \<not> is_space c) a)"
    by (simp add: list_all_iff)
  ultimately show "same_but_space a b"
    by (rule same_but_space_residue)
qed

text \<open>
  Claim C4. Two query texts that differ only in white space have the same
  fingerprint: \<open>hashPostBody\<close> removes every white-space character (the residue holds
  none, not even a single space between words) and returns the digest of the
  residue.
\<close>

theorem hashPostBody_ignores_space:
  assumes "same_but_space a b"
  shows "hashPostBody sha256 (Some (JStr a)) = hashPostBody sha256 (Some (JStr b))
       \<and> hashPostBody sha256 (Some (JStr a)) = Inr (sha256 (filter (\<lambda>c. \<not> is_space c) a))
       \<and> list_all (\<lambda>c. \<not> is_space c) (filter (\<lambda>c. \<not> is_space c) a)"
  using same_but_space_filter [OF assms] by (simp add: hashPostBody_def list_all_iff)

theorem hashPostBody_ignores_space_witness:
  "same_but_space ''{ books { title } }'' ''{books {title}}''
   \<and> hashPostBody id (Some (JStr ''{ books { title } }'')) = hashPostBody id (Some (JStr ''{books {title}}''))
   \<and> hashPostBody id (Some (JStr ''{ books { title } }'')) = Inr ''{books{title}}''"
proof -
  have h: "same_but_space ''{ books { title } }'' ''{books {title}}''"
    by (simp add: same_but_space_iff is_space_def)
  have c: "id (filter (\<lambda>c. \<not> is_space c) ''{ books { title } }'') = ''{books{title}}''"
    by (simp add: is_space_def)
  from hashPostBody_ignores_space [OF h, of id, unfolded c] h show ?thesis
    by blast
qed

section \<open>Removing the extensions\<close>

lemma map_of_filter_key:
  "map_of (filter (\<lambda>kv. fst kv \<noteq> k0) kvs) k = (if k = k0 then None else map_of kvs k)"
  by (induction kvs) auto

text \<open>
  Claim C9. For a string that parses as a JSON object, \<open>removeExtensions\<close> returns the
  serialisation of that object without its top-level key \<^verbatim>\<open>extensions\<close>: the key is
  gone, every other top-level key has the value it had, and the keys keep their
  order. \<open>extensionsFilter\<close> forwards exactly this string, and
  \<open>graphqlResponseHandler\<close> writes it to the client.
\<close>

theorem removeExtensions_frame:
  assumes "JSON_parse s = Inr (JObj kvs)"
  shows "removeExtensions (Some s) = Inr (JSON_stringify (JObj (filter (\<lambda>kv. fst kv \<noteq> ''extensions'') kvs)))
       \<and> map_of (filter (\<lambda>kv. fst kv \<noteq> ''extensions'') kvs) ''extensions'' = None
       \<and> (\<forall>k. k \<noteq> ''extensions'' \<longrightarrow>
             map_of (filter (\<lambda>kv. fst kv \<noteq> ''extensions'') kvs) k = map_of kvs k)
       \<and> map fst (filter (\<lambda>kv. fst kv \<noteq> ''extensions'') kvs) = filter (\<lambda>k. k \<noteq> ''extensions'') (map fst kvs)
       \<and> (\<forall>w. gqlResponse (res w) = Some s \<longrightarrow>
             extensionsFilter w =
               Inr (w\<lparr>res := (res w)\<lparr>gqlResponse :=
                       Some (JSON_stringify (JObj (filter (\<lambda>kv. fst kv \<noteq> ''extensions'') kvs)))\<rparr>,
                     next_calls := Suc (next_calls w)\<rparr>)
           \<and> (\<exists>w'. ebind (extensionsFilter w) graphqlResponseHandler = Inr w'
                \<and> written (res w') =
                    written (res w) @ [JSON_stringify (JObj (filter (\<lambda>kv. fst kv \<noteq> ''extensions'') kvs))]))"
proof -
  have r: "removeExtensions (Some s) = Inr (JSON_stringify (JObj (filter (\<lambda>kv. fst kv \<noteq> ''extensions'') kvs)))"
    using assms by (simp add: removeExtensions_def)
  have o: "map fst (filter (\<lambda>kv. fst kv \<noteq> ''extensions'') kvs) = filter (\<lambda>k. k \<noteq> ''extensions'') (map fst kvs)"
    by (induction kvs) auto
  show ?thesis
    using r o
    by (simp add: map_of_filter_key extensionsFilter_def graphqlResponseHandler_def sendContent_def
        setHeader_def del: JSON_stringify.simps)
qed


theorem removeExtensions_frame_witness:
  \<open>JSON_parse ''{"data":{"a":[1]}, "extensions":{"tracing":{}}, "errors":null}'' =
     Inr (JObj [(''data'', JObj [(''a'', JArr [JNum 1])]), (''extensions'', JObj [(''tracing'', JObj [])]),
                (''errors'', JNull)])
   \<and> removeExtensions (Some ''{"data":{"a":[1]}, "extensions":{"tracing":{}}, "errors":null}'') =
     Inr ''{"data":{"a":[1]},"errors":null}''\<close>
proof -
  have h: \<open>JSON_parse ''{"data":{"a":[1]}, "extensions":{"tracing":{}}, "errors":null}'' =
     Inr (JObj [(''data'', JObj [(''a'', JArr [JNum 1])]), (''extensions'', JObj [(''tracing'', JObj [])]),
                (''errors'', JNull)])\<close>
    by code_simp
  have e: \<open>JSON_stringify (JObj (filter (\<lambda>kv. fst kv \<noteq> ''extensions'')
       [(''data'', JObj [(''a'', JArr [JNum 1])]), (''extensions'', JObj [(''tracing'', JObj [])]),
        (''errors'', JNull)])) = ''{"data":{"a":[1]},"errors":null}''\<close>
    by code_simp
  from removeExtensions_frame [OF h, unfolded e] h show ?thesis
    by blast
qed

section \<open>The answers of \<open>getFromCacheIfAny\<close>\<close>

lemma not_found_text:
  \<open>JSON_stringify not_found_body = ''{"errors":[{"message":"PersistedQueryNotFound"}]}''\<close>
  by code_simp

lemma not_found_length:
  \<open>show_int (byteLength ''{"errors":[{"message":"PersistedQueryNotFound"}]}'') = ''49''\<close>
  by code_simp

lemma extractCacheKey_descriptor:
  "map_of d ''version'' = Some (JStr v) \<Longrightarrow> map_of d ''sha256Hash'' = Some (JStr h) \<Longrightarrow>
   extractCacheKey (Some (JObj d)) = Inr (v @ ''.'' @ h)"
  by (simp add: extractCacheKey_def js_string_def)

text \<open>
  Claim C8. A \<^verbatim>\<open>GET\<close> with a valid descriptor that misses the store and has no query
  text is answered with the body \<^verbatim>\<open>{"errors":[{"message":"PersistedQueryNotFound"}]}\<close>:
  one write, one end, the header \<^verbatim>\<open>X-Cache: MISS\<close>, the status code left as it was
  (200 on a fresh response), and no call of \<^verbatim>\<open>next()\<close>.
\<close>

theorem persisted_query_not_found:
  assumes "method req = ''GET''"
    and "isPersistedQuery (query req) = Inr (Some (JObj d))"
    and "map_of d ''version'' = Some (JStr v)"
    and "map_of d ''sha256Hash'' = Some (JStr h)"
    and "store_get (cache w) now (v @ ''.'' @ h) = None \<or> store_get (cache w) now (v @ ''.'' @ h) = Some []"
    and "get_prop (query req) ''query'' = Inr data_query"
    and "\<not> truthy data_query"
  shows \<open>getFromCacheIfAny sha256 now req w =
     Inr (w\<lparr>res := (res w)
        \<lparr>headers :=
           AList.update ''Content-Length'' ''49''
             (AList.update ''Content-Type'' ''application/json''
               (AList.update ''X-Cache'' ''MISS'' (headers (res w)))),
         written := written (res w) @ [''{"errors":[{"message":"PersistedQueryNotFound"}]}''],
         ended := Suc (ended (res w))\<rparr>\<rparr>)\<close>
proof -
  have miss: "cache_lookup sha256 now req (Some (JObj d)) data_query w = Inr None"
    using assms(1,3,4,5) by (auto simp add: cache_lookup_def extractCacheKey_descriptor)
  show ?thesis
    using assms(1,2,6,7) miss
    by (simp add: getFromCacheIfAny_def sendContent_def setHeader_def not_found_text not_found_length)
qed


lemma descriptor_parsed:
  "isPersistedQuery (query get_descriptor) = Inr (Some (JObj descriptor_demo))"
  by code_simp

theorem persisted_query_not_found_witness:
  \<open>method get_descriptor = ''GET''
   \<and> isPersistedQuery (query get_descriptor) = Inr (Some (JObj descriptor_demo))
   \<and> map_of descriptor_demo ''version'' = Some (JStr ''1'')
   \<and> map_of descriptor_demo ''sha256Hash'' = Some (JStr ''abc'')
   \<and> store_get (cache start) 100 (''1'' @ ''.'' @ ''abc'') = None
   \<and> get_prop (query get_descriptor) ''query'' = Inr None
   \<and> getFromCacheIfAny id 100 get_descriptor start =
       Inr (start\<lparr>res := fresh_response
         \<lparr>headers := [(''X-Cache'', ''MISS''), (''Content-Type'', ''application/json''),
                      (''Content-Length'', ''49'')],
          written := [''{"errors":[{"message":"PersistedQueryNotFound"}]}''],
          ended := 1\<rparr>\<rparr>)
   \<and> statusCode fresh_response = 200\<close>
proof -
  have h1: "method get_descriptor = ''GET''"
    by (simp add: get_descriptor_def)
  have h3: "map_of descriptor_demo ''version'' = Some (JStr ''1'')"
    and h4: "map_of descriptor_demo ''sha256Hash'' = Some (JStr ''abc'')"
    by (simp_all add: descriptor_demo_def)
  have h5: "store_get (cache start) 100 (''1'' @ ''.'' @ ''abc'') = None"
    by (simp add: start_def store_get_def lru_get_def createLRUCache_def)
  have h6: "get_prop (query get_descriptor) ''query'' = Inr None"
    by (simp add: get_descriptor_def)
  have h7: "\<not> truthy None"
    by simp
  from persisted_query_not_found [OF h1 descriptor_parsed h3 h4 disjI1 [OF h5] h6 h7, of id]
  have \<open>getFromCacheIfAny id 100 get_descriptor start =
       Inr (start\<lparr>res := fresh_response
         \<lparr>headers := [(''X-Cache'', ''MISS''), (''Content-Type'', ''application/json''),
                      (''Content-Length'', ''49'')],
          written := [''{"errors":[{"message":"PersistedQueryNotFound"}]}''],
          ended := 1\<rparr>\<rparr>)\<close>
    by (simp add: start_def fresh_response_def)
  with h1 descriptor_parsed h3 h4 h5 h6 show ?thesis
    by (simp add: fresh_response_def)
qed


subsection \<open>The rounding of doubles\<close>



















text \<open>
  The rounding of the doubles shows where the duration is not a multiple of 1000:
  \<^verbatim>\<open>563 / 1000 - (63 - 0) / 1000\<close> is the double below one half, and \<^verbatim>\<open>Math.round\<close> of it
  is 0, while the difference of the exact quotients is one half.
\<close>

lemma durationLeft_rounds_doubles:
  "durationLeft (Some (JNum 563)) (Some (JNum 0)) 63 = Inr (Some 0)"
  by code_simp


lemma entry_demo_parsed:
  \<open>JSON_parse entry_demo =
     Inr (JObj [(''payload'', JStr ''{"data":{"books":[]}}''), (''at'', JNum 100), (''duration'', JNum 60000)])\<close>
  by code_simp


lemma entry_demo_fits: "fits (createLRUCache None) entry_demo ''1.abc''"
  by code_simp

lemma stored_items:
  "lru_items (cache stored) =
     [''1.abc'' \<mapsto> \<lparr>slot_value = entry_demo, slot_now = 100, slot_maxAge = Some 60000\<rparr>]"
  using entry_demo_fits
  by (simp add: stored_def start_def store_set_def lru_set_def createLRUCache_def)


section \<open>Responses without hints\<close>

lemma lru_get_later:
  assumes "now0 \<le> now2"
    and "lru_get c now0 k = None \<or> lru_get c now0 k = Some []"
  shows "lru_get c now2 k = None \<or> lru_get c now2 k = Some []"
  using assms by (auto simp add: lru_get_def split: option.splits if_splits)

lemma cache_lookup_post_miss:
  assumes "method req = ''POST''" and "truthy q"
    and "cache_lookup sha256 now req pq q w = Inr None"
  shows "\<exists>key. hashPostBody sha256 q = Inr key
          \<and> (store_get (cache w) now key = None \<or> store_get (cache w) now key = Some [])"
  using assms
  by (auto simp add: cache_lookup_def ebind_def split: sum.splits option.splits if_splits)

lemma cache_lookup_post_missI:
  assumes "method req = ''POST''" and "truthy q"
    and "hashPostBody sha256 q = Inr key"
    and "store_get (cache w) now key = None \<or> store_get (cache w) now key = Some []"
  shows "cache_lookup sha256 now req pq q w = Inr None"
  using assms by (auto simp add: cache_lookup_def)

lemma next_call_is_miss:
  assumes "getFromCacheIfAny sha256 now req w = Inr w'"
    and "next_calls w' = Suc (next_calls w)"
    and "isPersistedQuery (if method req = ''POST'' then body req else query req) = Inr pq"
    and "get_prop (if method req = ''POST'' then body req else query req) ''query'' = Inr q"
  shows "cache_lookup sha256 now req pq q w = Inr None"
proof (cases "cache_lookup sha256 now req pq q w")
  case (Inl e)
  with assms show ?thesis by (simp add: getFromCacheIfAny_def)
next
  case (Inr hit)
  show ?thesis
  proof (cases hit)
    case None
    with Inr show ?thesis by simp
  next
    case (Some w'')
    with Inr assms(1,3,4) have "w' = w''"
      by (simp add: getFromCacheIfAny_def)
    moreover from Inr Some have "next_calls w'' = next_calls w"
      by (auto simp add: cache_lookup_def ebind_def split: sum.splits option.splits if_splits)
    ultimately show ?thesis using assms(2) by simp
  qed
qed

text \<open>
  Claim C5. For a request that is eligible for the cache (a \<^verbatim>\<open>GET\<close> with a descriptor
  or a \<^verbatim>\<open>POST\<close> with a query text), when the response of the engine has no
  \<^verbatim>\<open>extensions\<close> or no \<^verbatim>\<open>cacheControl\<close> in them, \<open>storeInCache\<close> calls \<^verbatim>\<open>next()\<close> and
  leaves the store and the response as they are. A \<^verbatim>\<open>POST\<close> that
  \<open>getFromCacheIfAny\<close> passed on before is therefore passed on again when it is
  repeated later: the engine runs again.
\<close>

theorem no_hints_no_write:
  assumes "data = (if method req = ''POST'' then body req else query req)"
    and "isPersistedQuery data = Inr pQuery"
    and "get_prop data ''query'' = Inr data_query"
    and "(method req = ''GET'' \<and> truthy pQuery) \<or> (method req = ''POST'' \<and> truthy data_query)"
    and "gqlResponse (res w) = Some gql"
    and "JSON_parse gql = Inr parsed"
    and "get_prop (Some parsed) ''extensions'' = Inr extensions"
    and "\<not> truthy extensions \<or> (\<exists>cc. get_prop extensions ''cacheControl'' = Inr cc \<and> \<not> truthy cc)"
  shows "storeInCache sha256 now req w = Inr (w\<lparr>next_calls := Suc (next_calls w)\<rparr>)
       \<and> (\<forall>w0 w1 now0 now2 r.
             method req = ''POST'' \<and> cache w0 = cache w \<and> now0 \<le> now2
             \<and> getFromCacheIfAny sha256 now0 req w0 = Inr w1 \<and> next_calls w1 = Suc (next_calls w0)
             \<longrightarrow> getFromCacheIfAny sha256 now2 req (w\<lparr>next_calls := Suc (next_calls w), res := r\<rparr>) =
                   Inr (w\<lparr>next_calls := Suc (Suc (next_calls w)), res := r\<rparr>))"
proof (intro conjI allI impI)
  show "storeInCache sha256 now req w = Inr (w\<lparr>next_calls := Suc (next_calls w)\<rparr>)"
    using assms by (auto simp add: storeInCache_def)
next
  fix w0 w1 :: mw and now0 now2 :: int and r :: response
  assume a: "method req = ''POST'' \<and> cache w0 = cache w \<and> now0 \<le> now2
             \<and> getFromCacheIfAny sha256 now0 req w0 = Inr w1 \<and> next_calls w1 = Suc (next_calls w0)"
  then have post: "method req = ''POST''" and q: "truthy data_query"
    using assms(4) by auto
  from a assms(1,2,3) have "cache_lookup sha256 now0 req pQuery data_query w0 = Inr None"
    by (intro next_call_is_miss [where w' = w1]) simp_all
  from cache_lookup_post_miss [OF post q this] a obtain key
    where key: "hashPostBody sha256 data_query = Inr key"
      and miss: "lru_get (cache w) now0 key = None \<or> lru_get (cache w) now0 key = Some []"
    by (auto simp add: store_get_def)
  from a have "now0 \<le> now2" by simp
  from lru_get_later [OF this miss]
  have "cache_lookup sha256 now2 req pQuery data_query (w\<lparr>next_calls := Suc (next_calls w), res := r\<rparr>) = Inr None"
    by (intro cache_lookup_post_missI [OF post q key]) (simp add: store_get_def)
  then show "getFromCacheIfAny sha256 now2 req (w\<lparr>next_calls := Suc (next_calls w), res := r\<rparr>) =
                   Inr (w\<lparr>next_calls := Suc (Suc (next_calls w)), res := r\<rparr>)"
    using assms(1,2,3) post by (simp add: getFromCacheIfAny_def)
qed


lemma post_query_facts:
  "method post_query = ''POST''"
  "isPersistedQuery (body post_query) = Inr (Some JNull)"
  "get_prop (body post_query) ''query'' = Inr (Some (JStr ''{ books { title } }''))"
  by (simp_all add: post_query_def isPersistedQuery_def)

lemma plain_response_parsed:
  "JSON_parse plain_response = Inr (JObj [(''data'', JObj [(''books'', JArr [])])])"
  by code_simp

theorem no_hints_no_write_witness:
  "method post_query = ''POST''
   \<and> isPersistedQuery (body post_query) = Inr (Some JNull)
   \<and> get_prop (body post_query) ''query'' = Inr (Some (JStr ''{ books { title } }''))
   \<and> JSON_parse plain_response = Inr (JObj [(''data'', JObj [(''books'', JArr [])])])
   \<and> getFromCacheIfAny id 50 post_query start = Inr (start\<lparr>next_calls := 1\<rparr>)
   \<and> storeInCache id 100 post_query (after_engine plain_response) =
       Inr ((after_engine plain_response)\<lparr>next_calls := 1\<rparr>)
   \<and> getFromCacheIfAny id 200 post_query ((after_engine plain_response)\<lparr>next_calls := 1, res := fresh_response\<rparr>) =
       Inr ((after_engine plain_response)\<lparr>next_calls := 2, res := fresh_response\<rparr>)"
proof -
  have d: "body post_query = (if method post_query = ''POST'' then body post_query else query post_query)"
    by (simp add: post_query_def)
  have e: "(method post_query = ''GET'' \<and> truthy (Some JNull))
           \<or> (method post_query = ''POST'' \<and> truthy (Some (JStr ''{ books { title } }'')))"
    by (simp add: post_query_def)
  have g: "gqlResponse (res (after_engine plain_response)) = Some plain_response"
    by (simp add: after_engine_def)
  have x: "get_prop (Some (JObj [(''data'', JObj [(''books'', JArr [])])])) ''extensions'' = Inr None"
    by simp
  have n: "\<not> truthy None \<or> (\<exists>cc. get_prop None ''cacheControl'' = Inr cc \<and> \<not> truthy cc)"
    by simp
  have first: "getFromCacheIfAny id 50 post_query start = Inr (start\<lparr>next_calls := 1\<rparr>)"
    by (simp add: getFromCacheIfAny_def post_query_facts cache_lookup_def hashPostBody_def
        store_get_def lru_get_def start_def createLRUCache_def)
  note t = no_hints_no_write [OF d post_query_facts(2,3) e g plain_response_parsed x n, of id 100]
  from t have store: "storeInCache id 100 post_query (after_engine plain_response) =
       Inr ((after_engine plain_response)\<lparr>next_calls := 1\<rparr>)"
    by (simp add: after_engine_def start_def)
  from t have "method post_query = ''POST'' \<and> cache start = cache (after_engine plain_response) \<and> (50::int) \<le> 200
       \<and> getFromCacheIfAny id 50 post_query start = Inr (start\<lparr>next_calls := 1\<rparr>)
       \<and> next_calls (start\<lparr>next_calls := 1\<rparr>) = Suc (next_calls start)
     \<longrightarrow> getFromCacheIfAny id 200 post_query
           ((after_engine plain_response)\<lparr>next_calls := Suc (next_calls (after_engine plain_response)), res := fresh_response\<rparr>) =
         Inr ((after_engine plain_response)\<lparr>next_calls := Suc (Suc (next_calls (after_engine plain_response))), res := fresh_response\<rparr>)"
    by blast
  with first have "getFromCacheIfAny id 200 post_query
           ((after_engine plain_response)\<lparr>next_calls := 1, res := fresh_response\<rparr>) =
         Inr ((after_engine plain_response)\<lparr>next_calls := 2, res := fresh_response\<rparr>)"
    by (simp add: post_query_facts after_engine_def start_def)
  with first store post_query_facts plain_response_parsed show ?thesis
    by simp
qed

section \<open>What \<open>storeInCache\<close> writes\<close>

lemma storeInCache_writes:
  assumes "data = (if method req = ''POST'' then body req else query req)"
    and "isPersistedQuery data = Inr pQuery"
    and "get_prop data ''query'' = Inr data_query"
    and "(method req = ''GET'' \<and> truthy pQuery) \<or> (method req = ''POST'' \<and> truthy data_query)"
    and "gqlResponse (res w) = Some gql"
    and "JSON_parse gql = Inr (JObj kvs)"
    and "map_of kvs ''extensions'' = Some extensions"
    and "truthy (Some extensions)"
    and "get_prop (Some extensions) ''cacheControl'' = Inr (Some cacheControl)"
    and "truthy (Some cacheControl)"
    and "minAge_of (Some cacheControl) = Inr (JNum minAge)"
    and "(if method req = ''GET'' then extractCacheKey pQuery else hashPostBody sha256 data_query) = Inr key"
    and "\<bar>minAge * 1000\<bar> \<le> 9007199254740991"
  shows "storeInCache sha256 now req w =
     Inr (w\<lparr>cache :=
            store_set (cache w) now key
              (JSON_stringify
                 (JObj [(''payload'', JStr (JSON_stringify (JObj (filter (\<lambda>kv. fst kv \<noteq> ''extensions'') kvs)))),
                        (''at'', JNum now), (''duration'', JNum (minAge * 1000))]))
              (minAge * 1000),
          next_calls := Suc (next_calls w)\<rparr>)"
proof -
  have r: "removeExtensions (Some gql) = Inr (JSON_stringify (JObj (filter (\<lambda>kv. fst kv \<noteq> ''extensions'') kvs)))"
    using assms(6) by (simp add: removeExtensions_def)
  have t: "times_1000 minAge = Inr (minAge * 1000)"
    using assms(13) by (simp add: times_1000_def)
  show ?thesis
    unfolding storeInCache_def Let_def
    using assms(1-5) assms(6-12) r t
    by (auto simp add: Let_def)
qed

text \<open>
  Claim C1, as the code has it. When \<open>storeInCache\<close> caches a response whose hints
  have the numbers \<open>ns\<close> as \<^verbatim>\<open>maxAge\<close>, integers from \<open>-9007199254740\<close> on (so that
  \<^verbatim>\<open>minAge * 1000\<close> is a safe integer, the product of the doubles exact), the entry's
  \<^verbatim>\<open>duration\<close> and the age passed to the store's \<^verbatim>\<open>set\<close> are both \<^verbatim>\<open>minAge * 1000\<close>,
  with \<^verbatim>\<open>minAge\<close> the minimum of 60 and \<open>ns\<close>: at most 60000, and at least 1000 when
  every hint is at least 1. There is no floor of one second.
\<close>

theorem stored_duration_is_minAge_ms:
  assumes "data = (if method req = ''POST'' then body req else query req)"
    and "isPersistedQuery data = Inr pQuery"
    and "get_prop data ''query'' = Inr data_query"
    and "(method req = ''GET'' \<and> truthy pQuery) \<or> (method req = ''POST'' \<and> truthy data_query)"
    and "gqlResponse (res w) = Some gql"
    and "JSON_parse gql = Inr (JObj kvs)"
    and "map_of kvs ''extensions'' = Some extensions"
    and "truthy (Some extensions)"
    and "get_prop (Some extensions) ''cacheControl'' = Inr (Some cacheControl)"
    and "truthy (Some cacheControl)"
    and "get_prop (Some cacheControl) ''hints'' = Inr (Some (JArr ps))"
    and "map (\<lambda>p. get_prop (Some p) ''maxAge'') ps = map (\<lambda>n. Inr (Some (JNum n))) ns"
    and "(if method req = ''GET'' then extractCacheKey pQuery else hashPostBody sha256 data_query) = Inr key"
    and "minAge = Min (insert 60 (set ns))"
    and "list_all (\<lambda>n. - 9007199254740 \<le> n) ns"
  shows "storeInCache sha256 now req w =
     Inr (w\<lparr>cache :=
            store_set (cache w) now key
              (JSON_stringify
                 (JObj [(''payload'', JStr (JSON_stringify (JObj (filter (\<lambda>kv. fst kv \<noteq> ''extensions'') kvs)))),
                        (''at'', JNum now), (''duration'', JNum (minAge * 1000))]))
              (minAge * 1000),
          next_calls := Suc (next_calls w)\<rparr>)
     \<and> minAge * 1000 \<le> 60000
     \<and> (list_all (\<lambda>n. 1 \<le> n) ns \<longrightarrow> 1000 \<le> minAge * 1000)"
proof -
  have m: "minAge_of (Some cacheControl) = Inr (JNum minAge)"
    using assms(11) hints_reduce_numbers [OF assms(12), of 60]
    by (simp add: minAge_of_def fold_min_Min assms(14))
  have le: "minAge \<le> 60"
    unfolding assms(14) by simp
  have ge: "1 \<le> minAge" if "list_all (\<lambda>n. 1 \<le> n) ns"
    unfolding assms(14) using that by (auto simp add: list_all_iff)
  have "- 9007199254740 \<le> minAge"
    unfolding assms(14) using assms(15) by (auto simp add: list_all_iff)
  with le have "\<bar>minAge * 1000\<bar> \<le> 9007199254740991"
    by linarith
  from storeInCache_writes [OF assms(1-10) m assms(13) this] le ge show ?thesis
    by simp
qed

lemma descriptor_query_facts:
  "method get_descriptor_query = ''GET''"
  "isPersistedQuery (query get_descriptor_query) = Inr (Some (JObj descriptor_demo))"
  "get_prop (query get_descriptor_query) ''query'' = Inr (Some (JStr ''{ books { title } }''))"
  "extractCacheKey (Some (JObj descriptor_demo)) = Inr ''1.abc''"
  by code_simp+

lemma hinted_response_parsed:
  "JSON_parse hinted_response = Inr (JObj [(''data'', JObj [(''books'', JArr [])]), (''extensions'', hints_of 65)])"
  "JSON_parse zero_hint_response = Inr (JObj [(''data'', JObj [(''books'', JArr [])]), (''extensions'', hints_of 0)])"
  by code_simp+

lemma plain_response_text:
  "JSON_stringify (JObj (filter (\<lambda>kv. fst kv \<noteq> ''extensions'')
      [(''data'', JObj [(''books'', JArr [])]), (''extensions'', x)])) = plain_response"
proof -
  have "JSON_stringify (JObj [(''data'', JObj [(''books'', JArr [])])]) = plain_response"
    by code_simp
  then show ?thesis by simp
qed

theorem stored_duration_is_minAge_ms_witness:
  "method get_descriptor_query = ''GET''
   \<and> isPersistedQuery (query get_descriptor_query) = Inr (Some (JObj descriptor_demo))
   \<and> JSON_parse hinted_response = Inr (JObj [(''data'', JObj [(''books'', JArr [])]), (''extensions'', hints_of 65)])
   \<and> list_all (\<lambda>n. - 9007199254740 \<le> n) [65::int]
   \<and> storeInCache id 100 get_descriptor_query (after_engine hinted_response) =
       Inr ((after_engine hinted_response)
         \<lparr>cache := store_set (createLRUCache None) 100 ''1.abc''
             (JSON_stringify (JObj [(''payload'', JStr plain_response), (''at'', JNum 100), (''duration'', JNum 60000)]))
             60000,
          next_calls := 1\<rparr>)"
proof -
  have d: "query get_descriptor_query =
      (if method get_descriptor_query = ''POST'' then body get_descriptor_query else query get_descriptor_query)"
    by (simp add: get_descriptor_query_def)
  have e: "(method get_descriptor_query = ''GET'' \<and> truthy (Some (JObj descriptor_demo)))
           \<or> (method get_descriptor_query = ''POST'' \<and> truthy (Some (JStr ''{ books { title } }'')))"
    by (simp add: get_descriptor_query_def)
  have g: "gqlResponse (res (after_engine hinted_response)) = Some hinted_response"
    by (simp add: after_engine_def)
  have x: "map_of [(''data'', JObj [(''books'', JArr [])]), (''extensions'', hints_of 65)] ''extensions'' = Some (hints_of 65)"
    by simp
  have t1: "truthy (Some (hints_of 65))"
    by (simp add: hints_of_def)
  have c: "get_prop (Some (hints_of 65)) ''cacheControl'' =
      Inr (Some (JObj [(''version'', JNum 1), (''hints'', JArr [JObj [(''path'', JArr [JStr ''books'']), (''maxAge'', JNum 65)]])]))"
    by (simp add: hints_of_def)
  have t2: "truthy (Some (JObj [(''version'', JNum 1), (''hints'', JArr [JObj [(''path'', JArr [JStr ''books'']), (''maxAge'', JNum 65)]])]))"
    by simp
  have h: "get_prop (Some (JObj [(''version'', JNum 1), (''hints'', JArr [JObj [(''path'', JArr [JStr ''books'']), (''maxAge'', JNum 65)]])])) ''hints''
      = Inr (Some (JArr [JObj [(''path'', JArr [JStr ''books'']), (''maxAge'', JNum 65)]]))"
    by simp
  have ns: "map (\<lambda>p. get_prop (Some p) ''maxAge'') [JObj [(''path'', JArr [JStr ''books'']), (''maxAge'', JNum 65)]]
      = map (\<lambda>n. Inr (Some (JNum n))) [65]"
    by simp
  have k: "(if method get_descriptor_query = ''GET'' then extractCacheKey (Some (JObj descriptor_demo))
            else hashPostBody id (Some (JStr ''{ books { title } }''))) = Inr ''1.abc''"
    by (simp add: descriptor_query_facts)
  have m: "(60::int) = Min (insert 60 (set [65]))"
    by simp
  have b: "list_all (\<lambda>n. - 9007199254740 \<le> n) [65::int]"
    by simp
  from stored_duration_is_minAge_ms
    [OF d descriptor_query_facts(2,3) e g hinted_response_parsed(1) x t1 c t2 h ns k m b, of 100,
     unfolded plain_response_text]
  have "storeInCache id 100 get_descriptor_query (after_engine hinted_response) =
       Inr ((after_engine hinted_response)
         \<lparr>cache := store_set (createLRUCache None) 100 ''1.abc''
             (JSON_stringify (JObj [(''payload'', JStr plain_response), (''at'', JNum 100), (''duration'', JNum 60000)]))
             60000,
          next_calls := 1\<rparr>)"
    by (simp add: after_engine_def start_def del: JSON_stringify.simps)
  with descriptor_query_facts(1,2) hinted_response_parsed(1) b show ?thesis
    by (simp del: JSON_stringify.simps)
qed

text \<open>
  With a hint of 0 seconds the entry is written with the duration 0, and 0 is the age
  passed to \<^verbatim>\<open>set\<close>, which then stores the entry without an age.
\<close>

lemma zero_entry_fits:
  "fits (createLRUCache None)
     (JSON_stringify (JObj [(''payload'', JStr plain_response), (''at'', JNum 100), (''duration'', JNum 0)]))
     ''1.abc''"
  by code_simp

lemma zero_hint_minAge:
  "minAge_of (Some (JObj [(''version'', JNum 1), (''hints'', JArr [JObj [(''path'', JArr [JStr ''books'']), (''maxAge'', JNum 0)]])]))
     = Inr (JNum 0)"
  by (simp add: minAge_of_def)

theorem zero_hint_stored_with_duration_0:
  "storeInCache id 100 get_descriptor_query (after_engine zero_hint_response) =
       Inr ((after_engine zero_hint_response)
         \<lparr>cache := store_set (createLRUCache None) 100 ''1.abc''
             (JSON_stringify (JObj [(''payload'', JStr plain_response), (''at'', JNum 100), (''duration'', JNum 0)]))
             0,
          next_calls := 1\<rparr>)
   \<and> lru_items
        (store_set (createLRUCache None) 100 ''1.abc''
           (JSON_stringify (JObj [(''payload'', JStr plain_response), (''at'', JNum 100), (''duration'', JNum 0)]))
           0) ''1.abc'' =
       Some \<lparr>slot_value =
               JSON_stringify (JObj [(''payload'', JStr plain_response), (''at'', JNum 100), (''duration'', JNum 0)]),
             slot_now = 100, slot_maxAge = None\<rparr>"
proof -
  have d: "query get_descriptor_query =
      (if method get_descriptor_query = ''POST'' then body get_descriptor_query else query get_descriptor_query)"
    by (simp add: get_descriptor_query_def)
  have e: "(method get_descriptor_query = ''GET'' \<and> truthy (Some (JObj descriptor_demo)))
           \<or> (method get_descriptor_query = ''POST'' \<and> truthy (Some (JStr ''{ books { title } }'')))"
    by (simp add: get_descriptor_query_def)
  have g: "gqlResponse (res (after_engine zero_hint_response)) = Some zero_hint_response"
    by (simp add: after_engine_def)
  have x: "map_of [(''data'', JObj [(''books'', JArr [])]), (''extensions'', hints_of 0)] ''extensions'' = Some (hints_of 0)"
    by simp
  have t1: "truthy (Some (hints_of 0))"
    by (simp add: hints_of_def)
  have c: "get_prop (Some (hints_of 0)) ''cacheControl'' =
      Inr (Some (JObj [(''version'', JNum 1), (''hints'', JArr [JObj [(''path'', JArr [JStr ''books'']), (''maxAge'', JNum 0)]])]))"
    by (simp add: hints_of_def)
  have t2: "truthy (Some (JObj [(''version'', JNum 1), (''hints'', JArr [JObj [(''path'', JArr [JStr ''books'']), (''maxAge'', JNum 0)]])]))"
    by simp
  have k: "(if method get_descriptor_query = ''GET'' then extractCacheKey (Some (JObj descriptor_demo))
            else hashPostBody id (Some (JStr ''{ books { title } }''))) = Inr ''1.abc''"
    by (simp add: descriptor_query_facts)
  have b: "\<bar>(0::int) * 1000\<bar> \<le> 9007199254740991"
    by simp
  from storeInCache_writes
    [OF d descriptor_query_facts(2,3) e g hinted_response_parsed(2) x t1 c t2 zero_hint_minAge k b, of 100,
     unfolded plain_response_text]
  have "storeInCache id 100 get_descriptor_query (after_engine zero_hint_response) =
       Inr ((after_engine zero_hint_response)
         \<lparr>cache := store_set (createLRUCache None) 100 ''1.abc''
             (JSON_stringify (JObj [(''payload'', JStr plain_response), (''at'', JNum 100), (''duration'', JNum 0)]))
             0,
          next_calls := 1\<rparr>)"
    by (simp add: after_engine_def start_def del: JSON_stringify.simps)
  then show ?thesis
    using zero_entry_fits by (simp add: store_set_def lru_set_def del: JSON_stringify.simps)
qed


section \<open>Malformed extensions\<close>




lemma other_extensions_facts:
  "isPersistedQuery (query get_other_extensions) = Inr None"
  "isPersistedQuery (query get_bad_extensions) = Inl SyntaxError"
  "isPersistedQuery (query get_null_extensions) = Inl TypeError"
  "isPersistedQuery (query get_no_extensions) = Inr (Some JNull)"
  by code_simp+







section \<open>One action of \<open>getFromCacheIfAny\<close>\<close>

lemma get_prop_truthy:
  "truthy v \<Longrightarrow> \<exists>x. get_prop v k = Inr x"
  by (cases "(v, k)" rule: get_prop.cases) simp_all

lemma extractCacheKey_truthy:
  "truthy pq \<Longrightarrow> \<exists>key. extractCacheKey pq = Inr key"
  using get_prop_truthy [of pq "''version''"] get_prop_truthy [of pq "''sha256Hash''"]
  by (auto simp add: extractCacheKey_def)

lemma sendContent_string:
  "\<exists>r'. sendContent r (Some (JStr s)) hit = Inr r' \<and> ended r' = Suc (ended r)
        \<and> written r' = written r @ [s]"
  by (simp add: sendContent_def setHeader_def)

lemma setHeader_frame [simp]:
  "ended (setHeader n v r) = ended r" "written (setHeader n v r) = written r"
  by (simp_all add: setHeader_def)

text \<open>
  Claim C10, as the code has it. When \<open>isPersistedQuery\<close> returns (the \<^verbatim>\<open>extensions\<close>,
  if any, parse to a JSON value other than \<^verbatim>\<open>null\<close>), the \<^verbatim>\<open>query\<close> of a \<^verbatim>\<open>POST\<close> is
  a string or falsy, and the values in the store are entries as \<open>storeInCache\<close>
  writes them, \<open>getFromCacheIfAny\<close> does exactly one of two things: it writes and ends
  the response once and does not call \<^verbatim>\<open>next()\<close>, or it calls \<^verbatim>\<open>next()\<close> once and
  leaves the response alone.
\<close>

theorem getFromCacheIfAny_one_action:
  assumes "data = (if method req = ''POST'' then body req else query req)"
    and "isPersistedQuery data = Inr pQuery"
    and "get_prop data ''query'' = Inr data_query"
    and "method req = ''POST'' \<longrightarrow> \<not> truthy data_query \<or> (\<exists>s. data_query = Some (JStr s))"
    and "\<forall>key val. store_get (cache w) now key = Some val \<and> val \<noteq> [] \<longrightarrow>
           (\<exists>p a d. JSON_parse val = Inr (JObj [(''payload'', JStr p), (''at'', JNum a), (''duration'', JNum d)]))"
  shows "\<exists>w'. getFromCacheIfAny sha256 now req w = Inr w'
         \<and> ((ended (res w') = Suc (ended (res w))
              \<and> length (written (res w')) = Suc (length (written (res w)))
              \<and> next_calls w' = next_calls w)
            \<or> (res w' = res w \<and> next_calls w' = Suc (next_calls w)))"
proof -
  let ?sent = "\<lambda>w'. ended (res w') = Suc (ended (res w))
              \<and> length (written (res w')) = Suc (length (written (res w)))
              \<and> next_calls w' = next_calls w"
  have lookup: "cache_lookup sha256 now req pQuery data_query w = Inr None
      \<or> (\<exists>w'. cache_lookup sha256 now req pQuery data_query w = Inr (Some w') \<and> ?sent w')"
  proof (cases "method req = ''POST'' \<and> truthy data_query")
    case True
    with assms(4) obtain s where s: "data_query = Some (JStr s)" by auto
    show ?thesis
    proof (cases "store_get (cache w) now (sha256 (filter (\<lambda>c. \<not> is_space c) s))")
      case None
      with True s show ?thesis by (simp add: cache_lookup_def hashPostBody_def)
    next
      case (Some val)
      show ?thesis
      proof (cases "val = []")
        case True
        with \<open>method req = ''POST'' \<and> truthy data_query\<close> s Some show ?thesis
          by (simp add: cache_lookup_def hashPostBody_def)
      next
        case False
        with assms(5) Some obtain p a d
          where "JSON_parse val = Inr (JObj [(''payload'', JStr p), (''at'', JNum a), (''duration'', JNum d)])"
          by blast
        with True s Some False show ?thesis
          by (simp add: cache_lookup_def hashPostBody_def sendContent_def)
      qed
    qed
  next
    case notpost: False
    show ?thesis
    proof (cases "method req = ''GET'' \<and> truthy pQuery")
      case True
      then obtain key where key: "extractCacheKey pQuery = Inr key"
        using extractCacheKey_truthy by blast
      show ?thesis
      proof (cases "store_get (cache w) now key")
        case None
        with True notpost key show ?thesis by (simp add: cache_lookup_def)
      next
        case (Some val)
        show ?thesis
        proof (cases "val = []")
          case True
          with \<open>method req = ''GET'' \<and> truthy pQuery\<close> notpost key Some show ?thesis
            by (simp add: cache_lookup_def)
        next
          case False
          with assms(5) Some obtain p a d
            where "JSON_parse val = Inr (JObj [(''payload'', JStr p), (''at'', JNum a), (''duration'', JNum d)])"
            by blast
          with True notpost key Some False show ?thesis
            by (simp add: cache_lookup_def durationLeft_def sendContent_def)
        qed
      qed
    next
      case False
      with notpost show ?thesis by (auto simp add: cache_lookup_def)
    qed
  qed
  then show ?thesis
  proof
    assume miss: "cache_lookup sha256 now req pQuery data_query w = Inr None"
    show ?thesis
      using assms(1,2,3) miss
      by (simp add: getFromCacheIfAny_def sendContent_def)
  next
    assume "\<exists>w'. cache_lookup sha256 now req pQuery data_query w = Inr (Some w') \<and> ?sent w'"
    then show ?thesis
      using assms(1,2,3) by (auto simp add: getFromCacheIfAny_def)
  qed
qed

lemma stored_entries:
  "\<forall>key val. store_get (cache stored) 20600 key = Some val \<and> val \<noteq> [] \<longrightarrow>
     (\<exists>p a d. JSON_parse val = Inr (JObj [(''payload'', JStr p), (''at'', JNum a), (''duration'', JNum d)]))"
proof (intro allI impI)
  fix key val
  assume "store_get (cache stored) 20600 key = Some val \<and> val \<noteq> []"
  then have "val = entry_demo"
    by (auto simp add: store_get_def lru_get_def stored_items split: if_splits)
  then show "\<exists>p a d. JSON_parse val = Inr (JObj [(''payload'', JStr p), (''at'', JNum a), (''duration'', JNum d)])"
    using entry_demo_parsed by blast
qed

theorem getFromCacheIfAny_one_action_witness:
  "isPersistedQuery (query get_descriptor) = Inr (Some (JObj descriptor_demo))
   \<and> get_prop (query get_descriptor) ''query'' = Inr None
   \<and> (\<exists>w'. getFromCacheIfAny id 20600 get_descriptor stored = Inr w'
         \<and> ((ended (res w') = 1 \<and> length (written (res w')) = 1 \<and> next_calls w' = 0)
            \<or> (res w' = fresh_response \<and> next_calls w' = 1)))"
proof -
  have d: "query get_descriptor =
      (if method get_descriptor = ''POST'' then body get_descriptor else query get_descriptor)"
    by (simp add: get_descriptor_def)
  have q: "get_prop (query get_descriptor) ''query'' = Inr None"
    by (simp add: get_descriptor_def)
  have m: "method get_descriptor = ''POST'' \<longrightarrow> \<not> truthy None \<or> (\<exists>s. None = Some (JStr s))"
    by simp
  from getFromCacheIfAny_one_action [OF d descriptor_parsed q m stored_entries, of id]
  have "\<exists>w'. getFromCacheIfAny id 20600 get_descriptor stored = Inr w'
         \<and> ((ended (res w') = 1 \<and> length (written (res w')) = 1 \<and> next_calls w' = 0)
            \<or> (res w' = fresh_response \<and> next_calls w' = 1))"
    by (simp add: stored_def start_def fresh_response_def)
  with descriptor_parsed q show ?thesis
    by blast
qed

text \<open>
  \<^verbatim>\<open>extensions\<close> that are the JSON text \<^verbatim>\<open>null\<close>: \<^verbatim>\<open>payload.persistedQuery\<close> throws a
  TypeError, and \<open>getFromCacheIfAny\<close> neither answers nor calls \<^verbatim>\<open>next()\<close>.
\<close>

theorem null_extensions_throw:
  "JSON_parse ''null'' = Inr JNull
   \<and> getFromCacheIfAny id 100 get_null_extensions start = Inl TypeError"
proof -
  have "JSON_parse ''null'' = Inr JNull"
    by code_simp
  moreover have "method get_null_extensions = ''GET''"
    by (simp add: get_null_extensions_def)
  ultimately show ?thesis
    by (simp add: getFromCacheIfAny_def other_extensions_facts)
qed


section \<open>Reading back what \<open>storeInCache\<close> wrote\<close>



























end
